theory Spec2Isabelle
  imports Complex_Main
begin

section \<open>Data model of the base controller\<close>

text \<open>
  The source computes in C++ \<open>double\<close>. The embedding takes \<open>double\<close> as \<open>real\<close>:
  rounding, infinities and NaN are not part of the model. Division is HOL's total
  division; a statement that depends on \<open>inPerDeg\<close> being positive says so.
\<close>

text \<open>
  The numeric constants that \<open>baseControl.cpp\<close> uses and \<open>main.h\<close> would declare.
  Their values are not in the repository's sources, so every function takes them as
  a parameter.
\<close>

record constants =
  inPerDeg :: real
  baseWidth :: real
  DISTANCE_LEEWAY :: real
  RAMPING_POW :: real
  MAX_POW :: real
  DEFAULT_KP :: real
  DEFAULT_KD :: real
  DEFAULT_TURN_KP :: real
  DEFAULT_TURN_KD :: real

text \<open>
  Modelled from the spec: the angle constants \<open>PI\<close>, \<open>halfPI\<close>, \<open>twoPI\<close> and \<open>toRad\<close>
  are used by \<open>baseControl.cpp\<close> and declared elsewhere. The spec gives them as
  180, 90 and 360 degrees, with headings in radians and \<open>angleDeg\<close> in degrees.
\<close>

definition PI :: real where
  "PI = pi"

definition halfPI :: real where
  "halfPI = pi / 2"

definition twoPI :: real where
  "twoPI = 2 * pi"

definition toRad :: real where
  "toRad = pi / 180"

text \<open>
  Modelled from the spec: the helper \<open>abscap\<close> is called by \<open>baseMotorControl\<close> and
  defined elsewhere. The spec says it clamps its first argument to plus or minus its
  second argument (``clamp \<open>requestedDelta\<close> to \<open>\<plusminus>rampStep\<close>'', ``clamp the
  ramped power to \<open>\<plusminus>CapState.limit\<close>'').
\<close>

definition abscap :: "real \<Rightarrow> real \<Rightarrow> real" where
  "abscap v cap = (if v > cap then cap else if v < - cap then - cap else v)"

text \<open>
  The C library's \<open>atan2(y, x)\<close> on reals: the angle of the point \<open>(x, y)\<close> in
  \<open>(-pi, pi]\<close>, and 0 at the origin.
\<close>

definition atan2 :: "real \<Rightarrow> real \<Rightarrow> real" where
  "atan2 v u =
     (if u > 0 then arctan (v / u)
      else if u < 0 \<and> v \<ge> 0 then arctan (v / u) + pi
      else if u < 0 \<and> v < 0 then arctan (v / u) - pi
      else if v > 0 then pi / 2
      else if v < 0 then - (pi / 2)
      else 0)"

text \<open>The global \<open>position\<close>: the pose that the odometry task maintains.\<close>

record odometry =
  position_x :: real
  position_y :: real
  position_angle :: real

text \<open>
  A motor at the boundary of the program: the encoder reading that \<open>get_position\<close>
  returns, and the power last given to \<open>move\<close>.
\<close>

record motor =
  get_position :: real
  moved :: real

definition move :: "real \<Rightarrow> motor \<Rightarrow> motor" where
  "move v m = m\<lparr>moved := v\<rparr>"

text \<open>The globals of \<open>baseControl.cpp\<close> together with the four motors.\<close>

record robot =
  position :: odometry
  FL :: motor
  BL :: motor
  FR :: motor
  BR :: motor
  targetEncdL :: real
  targetEncdR :: real
  targetPowerL :: real
  targetPowerR :: real
  kP :: real
  kD :: real
  basePowCapped :: bool
  absPowerCap :: real
  basePaused :: bool

text \<open>The values the globals have when the program starts.\<close>

definition init_robot :: robot where
  "init_robot =
     \<lparr>position = \<lparr>position_x = 0, position_y = 0, position_angle = 0\<rparr>,
      FL = \<lparr>get_position = 0, moved = 0\<rparr>,
      BL = \<lparr>get_position = 0, moved = 0\<rparr>,
      FR = \<lparr>get_position = 0, moved = 0\<rparr>,
      BR = \<lparr>get_position = 0, moved = 0\<rparr>,
      targetEncdL = 0, targetEncdR = 0,
      targetPowerL = 0, targetPowerR = 0,
      kP = 0, kD = 0,
      basePowCapped = False, absPowerCap = 0, basePaused = False\<rparr>"

text \<open>
  The world between two statements of the program: the wheels turn and the two side
  encoders read \<open>l\<close> and \<open>r\<close>.
\<close>

definition encoders_read :: "real \<Rightarrow> real \<Rightarrow> robot \<Rightarrow> robot" where
  "encoders_read l r s =
     s\<lparr>BL := (BL s)\<lparr>get_position := l\<rparr>, BR := (BR s)\<lparr>get_position := r\<rparr>\<rparr>"

section \<open>Movement functions\<close>

text \<open>\<open>baseMove(dis, kp, kd)\<close>: move straight.\<close>

definition baseMove :: "constants \<Rightarrow> real \<Rightarrow> real \<Rightarrow> real \<Rightarrow> robot \<Rightarrow> robot" where
  "baseMove c dis kp kd s =
     s\<lparr>targetEncdL := targetEncdL s + dis / inPerDeg c,
       targetEncdR := targetEncdR s + dis / inPerDeg c,
       kP := kp, kD := kd\<rparr>"

text \<open>\<open>baseMove(dis)\<close>: the same with the default gains.\<close>

definition baseMove_default :: "constants \<Rightarrow> real \<Rightarrow> robot \<Rightarrow> robot" where
  "baseMove_default c dis s = baseMove c dis (DEFAULT_KP c) (DEFAULT_KD c) s"

text \<open>
  \<open>baseMove(x, y, kp, kd)\<close>: move straight towards a coordinate. \<open>baseMove_xy_reverse\<close>
  is the local \<open>reverse\<close> (1 forward, -1 backward) and \<open>baseMove_xy_distance\<close> the
  local \<open>distance\<close>.
\<close>

definition baseMove_xy_distance :: "odometry \<Rightarrow> real \<Rightarrow> real \<Rightarrow> real" where
  "baseMove_xy_distance p x y =
     (let errorX = x - position_x p;
          errorY = y - position_y p
      in sqrt (errorX * errorX + errorY * errorY))"

definition baseMove_xy_reverse :: "odometry \<Rightarrow> real \<Rightarrow> real \<Rightarrow> real" where
  "baseMove_xy_reverse p x y =
     (let errorX = x - position_x p;
          errorY = y - position_y p;
          targAngle = atan2 errorX errorY
      in if \<bar>targAngle - position_angle p\<bar> \<ge> halfPI then - 1 else 1)"

definition baseMove_xy ::
  "constants \<Rightarrow> real \<Rightarrow> real \<Rightarrow> real \<Rightarrow> real \<Rightarrow> robot \<Rightarrow> robot" where
  "baseMove_xy c x y kp kd s =
     (let distance = baseMove_xy_distance (position s) x y;
          reverse = baseMove_xy_reverse (position s) x y
      in s\<lparr>targetEncdL := targetEncdL s + distance / inPerDeg c * reverse,
           targetEncdR := targetEncdR s + distance / inPerDeg c * reverse,
           kP := kp, kD := kd\<rparr>)"

definition baseMove_xy_default :: "constants \<Rightarrow> real \<Rightarrow> real \<Rightarrow> robot \<Rightarrow> robot" where
  "baseMove_xy_default c x y s = baseMove_xy c x y (DEFAULT_KP c) (DEFAULT_KD c) s"

text \<open>\<open>baseTurn(angleDeg, kp, kd)\<close>: turn to an absolute bearing.\<close>

definition baseTurn :: "constants \<Rightarrow> real \<Rightarrow> real \<Rightarrow> real \<Rightarrow> robot \<Rightarrow> robot" where
  "baseTurn c angleDeg kp kd s =
     (let error = angleDeg * toRad - position_angle (position s);
          diff = error * baseWidth c / inPerDeg c
      in s\<lparr>targetEncdL := targetEncdL s + diff / 2,
           targetEncdR := targetEncdR s + - diff / 2,
           kP := kp, kD := kd\<rparr>)"

definition baseTurn_default :: "constants \<Rightarrow> real \<Rightarrow> robot \<Rightarrow> robot" where
  "baseTurn_default c angleDeg s =
     baseTurn c angleDeg (DEFAULT_TURN_KP c) (DEFAULT_TURN_KD c) s"

text \<open>
  \<open>baseTurn(x, y, kp, kd, reverse)\<close>: turn to a coordinate. \<open>baseTurn_xy_targAngle\<close>
  is the local \<open>targAngle\<close> after the three conditional updates, in their order.
\<close>

definition baseTurn_xy_targAngle :: "odometry \<Rightarrow> real \<Rightarrow> real \<Rightarrow> bool \<Rightarrow> real" where
  "baseTurn_xy_targAngle p x y reverse =
     (let targAngle = atan2 (x - position_x p) (y - position_y p);
          targAngle = (if reverse then targAngle + PI else targAngle);
          targAngle = (if targAngle - position_angle p > PI then targAngle - twoPI
                       else targAngle);
          targAngle = (if targAngle - position_angle p < - PI then targAngle + twoPI
                       else targAngle)
      in targAngle)"

definition baseTurn_xy ::
  "constants \<Rightarrow> real \<Rightarrow> real \<Rightarrow> real \<Rightarrow> real \<Rightarrow> bool \<Rightarrow> robot \<Rightarrow> robot" where
  "baseTurn_xy c x y kp kd reverse s =
     (let targAngle = baseTurn_xy_targAngle (position s) x y reverse;
          diff = (targAngle - position_angle (position s)) * baseWidth c / inPerDeg c
      in s\<lparr>targetEncdL := targetEncdL s + diff / 2,
           targetEncdR := targetEncdR s + - diff / 2,
           kP := kp, kD := kd\<rparr>)"

definition baseTurn_xy_default :: "constants \<Rightarrow> real \<Rightarrow> real \<Rightarrow> bool \<Rightarrow> robot \<Rightarrow> robot" where
  "baseTurn_xy_default c x y reverse s =
     baseTurn_xy c x y (DEFAULT_TURN_KP c) (DEFAULT_TURN_KD c) reverse s"

text \<open>\<open>baseTurnRelative(angle, kp, kd)\<close>: turn a relative angle.\<close>

definition baseTurnRelative :: "constants \<Rightarrow> real \<Rightarrow> real \<Rightarrow> real \<Rightarrow> robot \<Rightarrow> robot" where
  "baseTurnRelative c ang kp kd s =
     (let diff = ang * toRad * baseWidth c / inPerDeg c
      in s\<lparr>targetEncdL := targetEncdL s + diff / 2,
           targetEncdR := targetEncdR s + - diff / 2,
           kP := kp, kD := kd\<rparr>)"

section \<open>Cap and pause\<close>

definition capBasePow :: "real \<Rightarrow> robot \<Rightarrow> robot" where
  "capBasePow cap s = s\<lparr>basePowCapped := True, absPowerCap := cap\<rparr>"

definition rmBaseCap :: "robot \<Rightarrow> robot" where
  "rmBaseCap s = s\<lparr>basePowCapped := False\<rparr>"

definition pauseBase :: "bool \<Rightarrow> robot \<Rightarrow> robot" where
  "pauseBase pause s = s\<lparr>basePaused := pause\<rparr>"

section \<open>The wait for arrival\<close>

text \<open>
  \<open>waitBase(cutoff)\<close> polls while the other tasks run, so what it reads changes under
  it. The readings are given as functions of the clock: \<open>bl t\<close> and \<open>br t\<close> are what
  \<open>BL.get_position()\<close> and \<open>BR.get_position()\<close> return at \<open>millis() = t\<close>. Each
  \<open>delay(20)\<close> advances the clock by 20. \<open>waitBase_loop\<close> is the \<open>while\<close> loop and
  returns the clock at which it exits.
\<close>

definition waitBase_cond ::
  "constants \<Rightarrow> robot \<Rightarrow> (int \<Rightarrow> real) \<Rightarrow> (int \<Rightarrow> real) \<Rightarrow> real \<Rightarrow> int \<Rightarrow> int \<Rightarrow> bool" where
  "waitBase_cond c s bl br cutoff start t \<longleftrightarrow>
     \<bar>targetEncdL s - bl t\<bar> > DISTANCE_LEEWAY c \<and>
     \<bar>targetEncdR s - br t\<bar> > DISTANCE_LEEWAY c \<and>
     real_of_int (t - start) < cutoff"

function waitBase_loop ::
  "constants \<Rightarrow> robot \<Rightarrow> (int \<Rightarrow> real) \<Rightarrow> (int \<Rightarrow> real) \<Rightarrow> real \<Rightarrow> int \<Rightarrow> int \<Rightarrow> int" where
  "waitBase_loop c s bl br cutoff start t =
     (if waitBase_cond c s bl br cutoff start t
      then waitBase_loop c s bl br cutoff start (t + 20)
      else t)"
  by pat_completeness auto
termination
proof (relation "measure (\<lambda>(c, s, bl, br, cutoff, start, t). nat (\<lceil>cutoff\<rceil> - (t - start)))")
  show "wf (measure (\<lambda>(c :: constants, s :: robot, bl :: int \<Rightarrow> real, br :: int \<Rightarrow> real,
      cutoff :: real, start :: int, t :: int). nat (\<lceil>cutoff\<rceil> - (t - start))))"
    by simp
next
  fix c :: constants and s :: robot and bl br :: "int \<Rightarrow> real"
    and cutoff :: real and start t :: int
  assume "waitBase_cond c s bl br cutoff start t"
  then have "real_of_int (t - start) < cutoff"
    by (simp add: waitBase_cond_def)
  then have "t - start < \<lceil>cutoff\<rceil>"
    by (simp add: less_ceiling_iff)
  then show "((c, s, bl, br, cutoff, start, t + 20), (c, s, bl, br, cutoff, start, t))
      \<in> measure (\<lambda>(c, s, bl, br, cutoff, start, t). nat (\<lceil>cutoff\<rceil> - (t - start)))"
    by simp
qed

declare waitBase_loop.simps [simp del]

text \<open>\<open>waitBase\<close>: the loop from the clock \<open>start\<close>, then the four motors are stopped.\<close>

definition waitBase ::
  "constants \<Rightarrow> (int \<Rightarrow> real) \<Rightarrow> (int \<Rightarrow> real) \<Rightarrow> real \<Rightarrow> int \<Rightarrow> robot \<Rightarrow> int \<times> robot" where
  "waitBase c bl br cutoff start s =
     (let t = waitBase_loop c s bl br cutoff start start
      in (t, s\<lparr>FL := move 0 (FL s), BL := move 0 (BL s),
               FR := move 0 (FR s), BR := move 0 (BR s)\<rparr>))"

section \<open>The two control tasks\<close>

text \<open>
  \<open>baseControl\<close>: the PD loop. Its locals \<open>prevErrorEncdL\<close> and \<open>prevErrorEncdR\<close>
  live across the iterations; \<open>baseControl_tick\<close> is one iteration of the loop body.
\<close>

record baseControl_locals =
  prevErrorEncdL :: real
  prevErrorEncdR :: real

definition baseControl_start :: baseControl_locals where
  "baseControl_start = \<lparr>prevErrorEncdL = 0, prevErrorEncdR = 0\<rparr>"

definition baseControl_tick :: "baseControl_locals \<times> robot \<Rightarrow> baseControl_locals \<times> robot" where
  "baseControl_tick = (\<lambda>(l, s).
     let errorEncdL = targetEncdL s - get_position (BL s);
         errorEncdR = targetEncdR s - get_position (BR s);
         deltaErrorEncdL = errorEncdL - prevErrorEncdL l;
         deltaErrorEncdR = errorEncdR - prevErrorEncdR l
     in (\<lparr>prevErrorEncdL = errorEncdL, prevErrorEncdR = errorEncdR\<rparr>,
         s\<lparr>targetPowerL := kP s * errorEncdL + kD s * deltaErrorEncdL,
           targetPowerR := kP s * errorEncdR + kD s * deltaErrorEncdR\<rparr>))"

text \<open>
  \<open>baseMotorControl\<close>: ramping, capping and the write to the motors. Its locals
  \<open>powerL\<close> and \<open>powerR\<close> live across the iterations; \<open>baseMotorControl_tick\<close> is one
  iteration of the loop body.
\<close>

record baseMotorControl_locals =
  powerL :: real
  powerR :: real

definition baseMotorControl_start :: baseMotorControl_locals where
  "baseMotorControl_start = \<lparr>powerL = 0, powerR = 0\<rparr>"

definition baseMotorControl_tick ::
  "constants \<Rightarrow> baseMotorControl_locals \<times> robot \<Rightarrow> baseMotorControl_locals \<times> robot" where
  "baseMotorControl_tick c = (\<lambda>(l, s).
     let deltaPowerL = targetPowerL s - powerL l;
         pL = powerL l + abscap deltaPowerL (RAMPING_POW c);
         deltaPowerR = targetPowerR s - powerR l;
         pR = powerR l + abscap deltaPowerR (RAMPING_POW c);
         pL = (if basePowCapped s then abscap pL (absPowerCap s) else abscap pL (MAX_POW c));
         pR = (if basePowCapped s then abscap pR (absPowerCap s) else abscap pR (MAX_POW c))
     in (\<lparr>powerL = pL, powerR = pR\<rparr>,
         if \<not> basePaused s
         then s\<lparr>FL := move pL (FL s), BL := move pL (BL s),
                FR := move pR (FR s), BR := move pR (BR s)\<rparr>
         else s))"

text \<open>
  \<open>n\<close> iterations of the body of \<open>baseMotorControl\<close> in a row, with no other task
  writing a global in between.
\<close>

definition baseMotorControl_ticks ::
  "constants \<Rightarrow> nat \<Rightarrow> baseMotorControl_locals \<times> robot \<Rightarrow> baseMotorControl_locals \<times> robot" where
  "baseMotorControl_ticks c n = baseMotorControl_tick c ^^ n"

section \<open>Concrete inputs\<close>

text \<open>
  Values for the constants, for the places where a statement is evaluated at a
  concrete input. 15 is the ramp step of the spec's slew-rate example.
\<close>

definition example_constants :: constants where
  "example_constants =
     \<lparr>inPerDeg = 1 / 2, baseWidth = 10, DISTANCE_LEEWAY = 15, RAMPING_POW = 15,
      MAX_POW = 127, DEFAULT_KP = 1, DEFAULT_KD = 0,
      DEFAULT_TURN_KP = 1, DEFAULT_TURN_KD = 0\<rparr>"

text \<open>The robot at the origin with a heading of \<open>deg\<close> degrees, all else as at the start.\<close>

definition robot_facing :: "real \<Rightarrow> robot" where
  "robot_facing deg =
     init_robot\<lparr>position := \<lparr>position_x = 0, position_y = 0, position_angle = deg * toRad\<rparr>\<rparr>"

text \<open>The robot with both encoder targets at \<open>t\<close> and the gains \<open>kp\<close> and \<open>kd\<close>.\<close>

definition robot_targeting :: "real \<Rightarrow> real \<Rightarrow> real \<Rightarrow> robot" where
  "robot_targeting t kp kd = init_robot\<lparr>targetEncdL := t, targetEncdR := t, kP := kp, kD := kd\<rparr>"

text \<open>The robot with both target powers at \<open>t\<close>, all else as at the start.\<close>

definition robot_powering :: "real \<Rightarrow> robot" where
  "robot_powering t = init_robot\<lparr>targetPowerL := t, targetPowerR := t\<rparr>"

section \<open>Notions used to state the properties of \<open>baseMotorControl\<close>\<close>

text \<open>
  The bound that an iteration of \<open>baseMotorControl\<close> clamps to: \<open>absPowerCap\<close> when the
  cap is on, \<open>MAX_POW\<close> otherwise.
\<close>

definition power_bound :: "constants \<Rightarrow> robot \<Rightarrow> real" where
  "power_bound c s = (if basePowCapped s then absPowerCap s else MAX_POW c)"

text \<open>
  What an iteration does to the power of one side: \<open>p\<close> is the power before, \<open>t\<close> the
  target power, \<open>r\<close> the ramp step and \<open>b\<close> the bound.
\<close>

definition ramp_step :: "real \<Rightarrow> real \<Rightarrow> real \<Rightarrow> real \<Rightarrow> real" where
  "ramp_step r b t p = abscap (p + abscap (t - p) r) b"

text \<open>What the control tasks read of the globals, apart from the pause flag.\<close>

definition motor_inputs :: "robot \<Rightarrow> real \<times> real \<times> bool \<times> real" where
  "motor_inputs s = (targetPowerL s, targetPowerR s, basePowCapped s, absPowerCap s)"

section \<open>Facts about \<open>atan2\<close>\<close>

lemma atan2_bounds: "- pi < atan2 v u \<and> atan2 v u \<le> pi"
proof -
  have lb: "- (pi / 2) < arctan (v / u)" by (rule arctan_lbound)
  have ub: "arctan (v / u) < pi / 2" by (rule arctan_ubound)
  have neg: "u < 0 \<Longrightarrow> v \<ge> 0 \<Longrightarrow> arctan (v / u) \<le> 0"
    by (simp add: divide_nonneg_neg)
  have pos: "u < 0 \<Longrightarrow> v < 0 \<Longrightarrow> 0 < arctan (v / u)"
    by (simp add: divide_neg_neg)
  show ?thesis
    using lb ub neg pos pi_gt_zero by (auto simp: atan2_def)
qed

text \<open>A point in the third quadrant, given by its angle, has that angle as its \<open>atan2\<close>.\<close>

lemma atan2_sin_cos_third:
  assumes "- pi < t" "t < - (pi / 2)"
  shows "atan2 (sin t) (cos t) = t"
proof -
  have "0 < cos (t + pi)"
    using assms by (intro cos_gt_zero_pi) auto
  then have c: "cos t < 0"
    by simp
  have "0 < sin (t + pi)"
    using assms by (intro sin_gt_zero) auto
  then have s: "sin t < 0"
    by simp
  have "arctan (sin t / cos t) = arctan (tan (t + pi))"
    by (simp add: tan_def)
  also have "\<dots> = t + pi"
    using assms by (intro arctan_tan) auto
  finally show ?thesis using c s by (simp add: atan2_def)
qed

lemma atan2_bearing_minus_170:
  "atan2 (sin (- 170 * toRad)) (cos (- 170 * toRad)) = - 170 * toRad"
  using pi_gt_zero by (intro atan2_sin_cos_third) (simp_all add: toRad_def)

lemma targAngle_170_minus_170:
  "baseTurn_xy_targAngle \<lparr>position_x = 0, position_y = 0, position_angle = 170 * toRad\<rparr>
     (sin (- 170 * toRad)) (cos (- 170 * toRad)) False - 170 * toRad = 20 * toRad"
  using atan2_bearing_minus_170 pi_ge_two
  by (simp add: baseTurn_xy_targAngle_def Let_def toRad_def PI_def twoPI_def)

section \<open>The wait for arrival\<close>

text \<open>
  What holds when the poll loop of \<open>waitBase\<close> exits: the left error is within the
  leeway, or the right error is, or the cutoff has elapsed.
\<close>

lemma waitBase_loop_exit:
  "\<not> waitBase_cond c s bl br cutoff start (waitBase_loop c s bl br cutoff start t)"
proof (induction c s bl br cutoff start t rule: waitBase_loop.induct)
  case (1 c s bl br cutoff start t)
  show ?case
  proof (cases "waitBase_cond c s bl br cutoff start t")
    case True
    with "1" show ?thesis
      by (subst waitBase_loop.simps) simp
  next
    case False
    then show ?thesis
      by (subst waitBase_loop.simps) simp
  qed
qed

text \<open>
  C1. \<open>waitBase\<close> is to return only when both encoder errors are within
  \<open>DISTANCE_LEEWAY\<close> or the cutoff has elapsed. The loop condition joins the two
  sides with \<open>&&\<close>, so the loop exits as soon as one side is within the leeway: with
  both targets at 1000, the left encoder at 1000 and the right encoder at 0, the loop
  exits at the first poll, with the right error at 1000 and none of the 5000 ms of
  cutoff elapsed.
\<close>

theorem waitBase_exits_with_one_side_arrived:
  "waitBase_loop example_constants (robot_targeting 1000 1 0) (\<lambda>t. 1000) (\<lambda>t. 0) 5000 0 0 = 0
   \<and> fst (waitBase example_constants (\<lambda>t. 1000) (\<lambda>t. 0) 5000 0 (robot_targeting 1000 1 0)) = 0
   \<and> \<bar>targetEncdL (robot_targeting 1000 1 0) - 1000\<bar> \<le> DISTANCE_LEEWAY example_constants
   \<and> \<bar>targetEncdR (robot_targeting 1000 1 0) - 0\<bar> > DISTANCE_LEEWAY example_constants
   \<and> real_of_int (0 - 0) < (5000 :: real)"
  by (simp add: waitBase_def Let_def waitBase_loop.simps waitBase_cond_def
      example_constants_def robot_targeting_def init_robot_def)

section \<open>Turning to a coordinate\<close>

text \<open>
  C2, as stated, fails. The heading is not kept within one turn, and one correction by
  360 degrees does not bring every difference within 180 degrees: at a heading of
  720 degrees (\<open>4 * pi\<close>) and a target straight ahead (bearing 0) the applied rotation
  is \<open>- 2 * pi\<close>. And a raw difference of exactly -180 degrees is left as it is, so
  the result is not always in the half-open interval.
\<close>

theorem baseTurn_xy_full_turn_counterexample:
  "baseTurn_xy_targAngle \<lparr>position_x = 0, position_y = 0, position_angle = 4 * pi\<rparr> 0 1 False
     - 4 * pi = - (2 * pi)
   \<and> \<not> \<bar>baseTurn_xy_targAngle \<lparr>position_x = 0, position_y = 0, position_angle = 4 * pi\<rparr> 0 1 False
         - 4 * pi\<bar> \<le> PI
   \<and> \<not> - PI < baseTurn_xy_targAngle \<lparr>position_x = 0, position_y = 0, position_angle = pi\<rparr> 0 1 False
         - pi"
  using pi_ge_two
  by (simp add: baseTurn_xy_targAngle_def Let_def PI_def twoPI_def atan2_def)

text \<open>
  C2, amended. For every pose whose heading is within 180 degrees of zero, and every
  target: \<open>baseTurn(x, y, kp, kd, reverse)\<close> takes the bearing
  \<open>atan2(x - position.x, y - position.y)\<close>, plus 180 degrees when \<open>reverse\<close> is set,
  subtracts 360 degrees if the difference to the heading exceeds 180 degrees and adds
  360 degrees if it is below -180 degrees; the rotation applied to the encoder targets
  is at most 180 degrees in absolute value. A heading of 170 degrees and a bearing of
  -170 degrees give a rotation of +20 degrees.
\<close>

theorem baseTurn_xy_shortest_turn:
  assumes "\<bar>position_angle (position s)\<bar> \<le> pi"
  shows "baseTurn_xy_targAngle (position s) x y reverse - position_angle (position s) =
      (let raw = atan2 (x - position_x (position s)) (y - position_y (position s))
                 + (if reverse then pi else 0) - position_angle (position s)
       in if raw > pi then raw - 2 * pi else if raw < - pi then raw + 2 * pi else raw)
    \<and> \<bar>baseTurn_xy_targAngle (position s) x y reverse - position_angle (position s)\<bar> \<le> pi
    \<and> targetEncdL (baseTurn_xy c x y kp kd reverse s) =
        targetEncdL s
        + (baseTurn_xy_targAngle (position s) x y reverse - position_angle (position s))
          * baseWidth c / inPerDeg c / 2
    \<and> targetEncdR (baseTurn_xy c x y kp kd reverse s) =
        targetEncdR s
        - (baseTurn_xy_targAngle (position s) x y reverse - position_angle (position s))
          * baseWidth c / inPerDeg c / 2
    \<and> baseTurn_xy_targAngle \<lparr>position_x = 0, position_y = 0, position_angle = 170 * toRad\<rparr>
        (sin (- 170 * toRad)) (cos (- 170 * toRad)) False - 170 * toRad = 20 * toRad"
proof -
  have b: "- pi < atan2 (x - position_x (position s)) (y - position_y (position s))"
    "atan2 (x - position_x (position s)) (y - position_y (position s)) \<le> pi"
    using atan2_bounds by simp_all
  have norm: "baseTurn_xy_targAngle (position s) x y reverse - position_angle (position s) =
      (let raw = atan2 (x - position_x (position s)) (y - position_y (position s))
                 + (if reverse then pi else 0) - position_angle (position s)
       in if raw > pi then raw - 2 * pi else if raw < - pi then raw + 2 * pi else raw)"
    using assms b by (auto simp: baseTurn_xy_targAngle_def Let_def PI_def twoPI_def)
  have bound: "\<bar>baseTurn_xy_targAngle (position s) x y reverse - position_angle (position s)\<bar> \<le> pi"
    using assms b by (auto simp: baseTurn_xy_targAngle_def Let_def PI_def twoPI_def)
  have upd: "targetEncdL (baseTurn_xy c x y kp kd reverse s) =
        targetEncdL s
        + (baseTurn_xy_targAngle (position s) x y reverse - position_angle (position s))
          * baseWidth c / inPerDeg c / 2"
    "targetEncdR (baseTurn_xy c x y kp kd reverse s) =
        targetEncdR s
        - (baseTurn_xy_targAngle (position s) x y reverse - position_angle (position s))
          * baseWidth c / inPerDeg c / 2"
    by (simp_all add: baseTurn_xy_def Let_def)
  show ?thesis
    using norm bound upd targAngle_170_minus_170 by blast
qed

theorem baseTurn_xy_shortest_turn_witness:
  "\<bar>position_angle (position (robot_facing 135))\<bar> \<le> pi
   \<and> baseTurn_xy_targAngle (position (robot_facing 135)) (- 1) (- 1) False
       - position_angle (position (robot_facing 135)) = pi / 2
   \<and> \<bar>baseTurn_xy_targAngle (position (robot_facing 135)) (- 1) (- 1) False
       - position_angle (position (robot_facing 135))\<bar> \<le> pi
   \<and> targetEncdL (baseTurn_xy example_constants (- 1) (- 1) 1 0 False (robot_facing 135)) = 5 * pi
   \<and> targetEncdR (baseTurn_xy example_constants (- 1) (- 1) 1 0 False (robot_facing 135)) = - (5 * pi)"
proof -
  have h: "\<bar>position_angle (position (robot_facing 135))\<bar> \<le> pi"
    by (simp add: robot_facing_def init_robot_def toRad_def)
  have v: "baseTurn_xy_targAngle (position (robot_facing 135)) (- 1) (- 1) False
       - position_angle (position (robot_facing 135)) = pi / 2"
    using pi_ge_two
    by (simp add: baseTurn_xy_targAngle_def Let_def PI_def twoPI_def atan2_def arctan_one
        robot_facing_def init_robot_def toRad_def)
  note t = baseTurn_xy_shortest_turn [OF h, of "- 1" "- 1" False example_constants 1 0]
  from t have b: "\<bar>baseTurn_xy_targAngle (position (robot_facing 135)) (- 1) (- 1) False
       - position_angle (position (robot_facing 135))\<bar> \<le> pi"
    by blast
  from t have "targetEncdL (baseTurn_xy example_constants (- 1) (- 1) 1 0 False (robot_facing 135)) =
        targetEncdL (robot_facing 135)
        + (baseTurn_xy_targAngle (position (robot_facing 135)) (- 1) (- 1) False
           - position_angle (position (robot_facing 135)))
          * baseWidth example_constants / inPerDeg example_constants / 2"
    by blast
  then have l: "targetEncdL (baseTurn_xy example_constants (- 1) (- 1) 1 0 False (robot_facing 135)) = 5 * pi"
    unfolding v by (simp add: example_constants_def robot_facing_def init_robot_def)
  from t have "targetEncdR (baseTurn_xy example_constants (- 1) (- 1) 1 0 False (robot_facing 135)) =
        targetEncdR (robot_facing 135)
        - (baseTurn_xy_targAngle (position (robot_facing 135)) (- 1) (- 1) False
           - position_angle (position (robot_facing 135)))
          * baseWidth example_constants / inPerDeg example_constants / 2"
    by blast
  then have r: "targetEncdR (baseTurn_xy example_constants (- 1) (- 1) 1 0 False (robot_facing 135)) = - (5 * pi)"
    unfolding v by (simp add: example_constants_def robot_facing_def init_robot_def)
  show ?thesis
    using h v b l r by blast
qed

section \<open>Moving to a coordinate\<close>

text \<open>
  C3. \<open>baseMove(x, y, kp, kd)\<close> takes the Euclidean distance to the target and the
  bearing \<open>atan2(x - position.x, y - position.y)\<close>. If the bearing differs from the
  heading by 90 degrees or more, both encoder targets get the distance (in encoder
  degrees) subtracted, and otherwise added; with a positive \<open>inPerDeg\<close> and a target
  that is not the robot's own position the change is negative in the first case and
  positive in the second.
\<close>

theorem baseMove_xy_reverse_inference:
  "(\<bar>atan2 (x - position_x (position s)) (y - position_y (position s))
       - position_angle (position s)\<bar> \<ge> pi / 2 \<longrightarrow>
      targetEncdL (baseMove_xy c x y kp kd s) - targetEncdL s =
        - (sqrt ((x - position_x (position s))\<^sup>2 + (y - position_y (position s))\<^sup>2) / inPerDeg c)
      \<and> targetEncdR (baseMove_xy c x y kp kd s) - targetEncdR s =
        - (sqrt ((x - position_x (position s))\<^sup>2 + (y - position_y (position s))\<^sup>2) / inPerDeg c))
   \<and> (\<bar>atan2 (x - position_x (position s)) (y - position_y (position s))
       - position_angle (position s)\<bar> < pi / 2 \<longrightarrow>
      targetEncdL (baseMove_xy c x y kp kd s) - targetEncdL s =
        sqrt ((x - position_x (position s))\<^sup>2 + (y - position_y (position s))\<^sup>2) / inPerDeg c
      \<and> targetEncdR (baseMove_xy c x y kp kd s) - targetEncdR s =
        sqrt ((x - position_x (position s))\<^sup>2 + (y - position_y (position s))\<^sup>2) / inPerDeg c)
   \<and> (0 < inPerDeg c \<and> (x \<noteq> position_x (position s) \<or> y \<noteq> position_y (position s)) \<longrightarrow>
      (\<bar>atan2 (x - position_x (position s)) (y - position_y (position s))
          - position_angle (position s)\<bar> \<ge> pi / 2 \<longrightarrow>
         targetEncdL (baseMove_xy c x y kp kd s) - targetEncdL s < 0
         \<and> targetEncdR (baseMove_xy c x y kp kd s) - targetEncdR s < 0)
      \<and> (\<bar>atan2 (x - position_x (position s)) (y - position_y (position s))
          - position_angle (position s)\<bar> < pi / 2 \<longrightarrow>
         0 < targetEncdL (baseMove_xy c x y kp kd s) - targetEncdL s
         \<and> 0 < targetEncdR (baseMove_xy c x y kp kd s) - targetEncdR s))"
proof -
  let ?d = "sqrt ((x - position_x (position s))\<^sup>2 + (y - position_y (position s))\<^sup>2)"
  have d: "baseMove_xy_distance (position s) x y = ?d"
    by (simp add: baseMove_xy_distance_def Let_def power2_eq_square)
  have pos: "0 < ?d / inPerDeg c"
    if "0 < inPerDeg c \<and> (x \<noteq> position_x (position s) \<or> y \<noteq> position_y (position s))"
  proof -
    have "0 < (x - position_x (position s))\<^sup>2 + (y - position_y (position s))\<^sup>2"
      using that by (simp add: sum_power2_gt_zero_iff)
    then have "0 < ?d"
      by simp
    then show ?thesis
      using that by simp
  qed
  show ?thesis
    using pos d by (simp add: baseMove_xy_def baseMove_xy_reverse_def Let_def halfPI_def)
qed

theorem baseMove_xy_reverse_inference_witness:
  "0 < inPerDeg example_constants
   \<and> targetEncdL (baseMove_xy example_constants 0 1 1 0 (robot_facing 95))
       - targetEncdL (robot_facing 95) = - 2
   \<and> targetEncdL (baseMove_xy example_constants 0 1 1 0 (robot_facing 95))
       - targetEncdL (robot_facing 95) < 0
   \<and> targetEncdL (baseMove_xy example_constants 0 1 1 0 (robot_facing 85))
       - targetEncdL (robot_facing 85) = 2
   \<and> 0 < targetEncdL (baseMove_xy example_constants 0 1 1 0 (robot_facing 85))
       - targetEncdL (robot_facing 85)"
proof -
  have c: "0 < inPerDeg example_constants"
    by (simp add: example_constants_def)
  have p95: "0 < inPerDeg example_constants
      \<and> ((0 :: real) \<noteq> position_x (position (robot_facing 95))
         \<or> (1 :: real) \<noteq> position_y (position (robot_facing 95)))"
    by (simp add: robot_facing_def init_robot_def example_constants_def)
  have p85: "0 < inPerDeg example_constants
      \<and> ((0 :: real) \<noteq> position_x (position (robot_facing 85))
         \<or> (1 :: real) \<noteq> position_y (position (robot_facing 85)))"
    by (simp add: robot_facing_def init_robot_def example_constants_def)
  have a95: "\<bar>atan2 (0 - position_x (position (robot_facing 95))) (1 - position_y (position (robot_facing 95)))
      - position_angle (position (robot_facing 95))\<bar> \<ge> pi / 2"
    by (simp add: robot_facing_def init_robot_def atan2_def toRad_def)
  have a85: "\<bar>atan2 (0 - position_x (position (robot_facing 85))) (1 - position_y (position (robot_facing 85)))
      - position_angle (position (robot_facing 85))\<bar> < pi / 2"
    by (simp add: robot_facing_def init_robot_def atan2_def toRad_def)
  note t95 = baseMove_xy_reverse_inference [of 0 "robot_facing 95" 1 example_constants 1 0]
  note t85 = baseMove_xy_reverse_inference [of 0 "robot_facing 85" 1 example_constants 1 0]
  have "targetEncdL (baseMove_xy example_constants 0 1 1 0 (robot_facing 95))
       - targetEncdL (robot_facing 95) =
       - (sqrt ((0 - position_x (position (robot_facing 95)))\<^sup>2
                + (1 - position_y (position (robot_facing 95)))\<^sup>2) / inPerDeg example_constants)"
    using t95 a95 by blast
  then have r95: "targetEncdL (baseMove_xy example_constants 0 1 1 0 (robot_facing 95))
       - targetEncdL (robot_facing 95) = - 2"
    by (simp add: robot_facing_def init_robot_def example_constants_def)
  have n95: "targetEncdL (baseMove_xy example_constants 0 1 1 0 (robot_facing 95))
       - targetEncdL (robot_facing 95) < 0"
    using t95 a95 p95 by blast
  have "targetEncdL (baseMove_xy example_constants 0 1 1 0 (robot_facing 85))
       - targetEncdL (robot_facing 85) =
       sqrt ((0 - position_x (position (robot_facing 85)))\<^sup>2
                + (1 - position_y (position (robot_facing 85)))\<^sup>2) / inPerDeg example_constants"
    using t85 a85 by blast
  then have r85: "targetEncdL (baseMove_xy example_constants 0 1 1 0 (robot_facing 85))
       - targetEncdL (robot_facing 85) = 2"
    by (simp add: robot_facing_def init_robot_def example_constants_def)
  have n85: "0 < targetEncdL (baseMove_xy example_constants 0 1 1 0 (robot_facing 85))
       - targetEncdL (robot_facing 85)"
    using t85 a85 p85 by blast
  show ?thesis
    using c r95 n95 r85 n85 by blast
qed

section \<open>The PD loop\<close>

text \<open>
  C4. On every iteration of \<open>baseControl\<close> the target power written for a side is
  \<open>kP * error + kD * (error - previous error)\<close>, where the error is the target encoder
  value minus the encoder reading, and the previous error is the error of the
  iteration before (0 at the first). With the target at 100, the encoder at 0,
  \<open>kP = 1\<close> and \<open>kD = 0\<close>, the first iteration writes 100; with the encoder then at 100
  the second writes 0.
\<close>

theorem baseControl_pd_law:
  "targetPowerL (snd (baseControl_tick (l, s))) =
     kP s * (targetEncdL s - get_position (BL s))
     + kD s * ((targetEncdL s - get_position (BL s)) - prevErrorEncdL l)
   \<and> targetPowerR (snd (baseControl_tick (l, s))) =
     kP s * (targetEncdR s - get_position (BR s))
     + kD s * ((targetEncdR s - get_position (BR s)) - prevErrorEncdR l)
   \<and> prevErrorEncdL (fst (baseControl_tick (l, s))) = targetEncdL s - get_position (BL s)
   \<and> prevErrorEncdR (fst (baseControl_tick (l, s))) = targetEncdR s - get_position (BR s)
   \<and> prevErrorEncdL baseControl_start = 0
   \<and> prevErrorEncdR baseControl_start = 0
   \<and> targetPowerL (snd (baseControl_tick (baseControl_start, robot_targeting 100 1 0))) = 100
   \<and> targetPowerR (snd (baseControl_tick (baseControl_start, robot_targeting 100 1 0))) = 100
   \<and> targetPowerL (snd (baseControl_tick (apsnd (encoders_read 100 100)
        (baseControl_tick (baseControl_start, robot_targeting 100 1 0))))) = 0
   \<and> targetPowerR (snd (baseControl_tick (apsnd (encoders_read 100 100)
        (baseControl_tick (baseControl_start, robot_targeting 100 1 0))))) = 0"
  by (simp add: baseControl_tick_def baseControl_start_def Let_def robot_targeting_def
      init_robot_def encoders_read_def)

section \<open>Composition of commands\<close>

text \<open>
  C6. Each movement command adds its change to \<open>targetEncdL\<close> and \<open>targetEncdR\<close>: the
  new target is the old one plus an amount that does not depend on the old targets.
  Two straight moves of 10 and 5 inches in a row leave the state that one move of 15
  inches leaves.
\<close>

theorem commands_compose_by_addition:
  "targetEncdL (baseMove c dis kp kd s) = targetEncdL s + dis / inPerDeg c
   \<and> targetEncdR (baseMove c dis kp kd s) = targetEncdR s + dis / inPerDeg c
   \<and> targetEncdL (baseMove_xy c x y kp kd s) =
       targetEncdL s + baseMove_xy_distance (position s) x y / inPerDeg c
                       * baseMove_xy_reverse (position s) x y
   \<and> targetEncdR (baseMove_xy c x y kp kd s) =
       targetEncdR s + baseMove_xy_distance (position s) x y / inPerDeg c
                       * baseMove_xy_reverse (position s) x y
   \<and> targetEncdL (baseTurn c angleDeg kp kd s) =
       targetEncdL s + (angleDeg * toRad - position_angle (position s)) * baseWidth c / inPerDeg c / 2
   \<and> targetEncdR (baseTurn c angleDeg kp kd s) =
       targetEncdR s - (angleDeg * toRad - position_angle (position s)) * baseWidth c / inPerDeg c / 2
   \<and> targetEncdL (baseTurn_xy c x y kp kd reverse s) =
       targetEncdL s + (baseTurn_xy_targAngle (position s) x y reverse - position_angle (position s))
                       * baseWidth c / inPerDeg c / 2
   \<and> targetEncdR (baseTurn_xy c x y kp kd reverse s) =
       targetEncdR s - (baseTurn_xy_targAngle (position s) x y reverse - position_angle (position s))
                       * baseWidth c / inPerDeg c / 2
   \<and> targetEncdL (baseTurnRelative c ang kp kd s) =
       targetEncdL s + ang * toRad * baseWidth c / inPerDeg c / 2
   \<and> targetEncdR (baseTurnRelative c ang kp kd s) =
       targetEncdR s - ang * toRad * baseWidth c / inPerDeg c / 2
   \<and> position (baseMove c dis kp kd s) = position s
   \<and> position (baseMove_xy c x y kp kd s) = position s
   \<and> position (baseTurn c angleDeg kp kd s) = position s
   \<and> position (baseTurn_xy c x y kp kd reverse s) = position s
   \<and> position (baseTurnRelative c ang kp kd s) = position s
   \<and> baseMove c 5 kp kd (baseMove c 10 kp kd s) = baseMove c 15 kp kd s
   \<and> targetEncdL (baseMove c 5 kp kd (baseMove c 10 kp' kd' s)) - targetEncdL s =
       targetEncdL (baseMove c 15 kp kd s) - targetEncdL s
   \<and> targetEncdR (baseMove c 5 kp kd (baseMove c 10 kp' kd' s)) - targetEncdR s =
       targetEncdR (baseMove c 15 kp kd s) - targetEncdR s"
  by (simp add: baseMove_def baseMove_xy_def baseTurn_def baseTurn_xy_def baseTurnRelative_def
      Let_def add_divide_distrib [symmetric])

section \<open>Turning to an absolute bearing\<close>


section \<open>Clamping and ramping of one side\<close>

lemma abscap_abs_le: "0 \<le> cap \<Longrightarrow> \<bar>abscap v cap\<bar> \<le> cap"
  by (auto simp: abscap_def)

lemma abscap_nonexpansive: "\<bar>p\<bar> \<le> cap \<Longrightarrow> \<bar>abscap v cap - p\<bar> \<le> \<bar>v - p\<bar>"
  by (auto simp: abscap_def)

lemma abscap_sign:
  "0 \<le> cap \<Longrightarrow> (0 \<le> v \<longrightarrow> 0 \<le> abscap v cap) \<and> (v \<le> 0 \<longrightarrow> abscap v cap \<le> 0)"
  by (auto simp: abscap_def)

lemma abscap_saturates:
  "0 \<le> cap \<Longrightarrow> (cap \<le> v \<longrightarrow> abscap v cap = cap) \<and> (v \<le> - cap \<longrightarrow> abscap v cap = - cap)"
  by (auto simp: abscap_def)

lemma ramp_step_slew:
  assumes "0 \<le> r" "\<bar>p\<bar> \<le> b"
  shows "\<bar>ramp_step r b t p - p\<bar> \<le> r"
proof -
  have "\<bar>ramp_step r b t p - p\<bar> \<le> \<bar>(p + abscap (t - p) r) - p\<bar>"
    unfolding ramp_step_def using assms(2) by (rule abscap_nonexpansive)
  also have "\<dots> = \<bar>abscap (t - p) r\<bar>"
    by simp
  also have "\<dots> \<le> r"
    using assms(1) by (rule abscap_abs_le)
  finally show ?thesis .
qed

lemma ramp_step_up:
  assumes "0 \<le> r" "0 \<le> t" "0 \<le> b" "0 \<le> q"
  shows "ramp_step r b t (min q (min t b)) = min (q + r) (min t b)"
  using assms by (auto simp: ramp_step_def abscap_def min_def)

lemma ramp_run_up:
  assumes "0 \<le> r" "0 \<le> t" "0 \<le> b"
  shows "(ramp_step r b t ^^ n) 0 = min (real n * r) (min t b)"
proof (induction n)
  case 0
  show ?case using assms by simp
next
  case (Suc n)
  have "(ramp_step r b t ^^ Suc n) 0 = ramp_step r b t (min (real n * r) (min t b))"
    using Suc.IH by simp
  also have "\<dots> = min (real n * r + r) (min t b)"
    using assms by (intro ramp_step_up) simp_all
  also have "real n * r + r = real (Suc n) * r"
    by (simp add: algebra_simps)
  finally show ?case .
qed

lemma abscap_minus: "0 \<le> cap \<Longrightarrow> abscap (- v) cap = - abscap v cap"
  by (auto simp: abscap_def)

lemma ramp_step_minus:
  assumes "0 \<le> r" "0 \<le> b"
  shows "ramp_step r b (- t) (- p) = - ramp_step r b t p"
proof -
  have "- t - - p = - (t - p)"
    by simp
  then have "- p + abscap (- t - - p) r = - (p + abscap (t - p) r)"
    using abscap_minus [OF assms(1), of "t - p"] by simp
  then have "ramp_step r b (- t) (- p) = abscap (- (p + abscap (t - p) r)) b"
    by (simp only: ramp_step_def)
  also have "\<dots> = - abscap (p + abscap (t - p) r) b"
    using assms(2) by (rule abscap_minus)
  finally show ?thesis
    by (simp only: ramp_step_def)
qed

lemma ramp_run_minus:
  assumes "0 \<le> r" "0 \<le> b"
  shows "(ramp_step r b (- t) ^^ n) 0 = - ((ramp_step r b t ^^ n) 0)"
proof (induction n)
  case 0
  show ?case by simp
next
  case (Suc n)
  then show ?case
    using ramp_step_minus [OF assms] by simp
qed

lemma ramp_run_down:
  assumes "0 \<le> r" "t \<le> 0" "0 \<le> b"
  shows "(ramp_step r b t ^^ n) 0 = - min (real n * r) (min (- t) b)"
proof -
  have "(ramp_step r b (- (- t)) ^^ n) 0 = - ((ramp_step r b (- t) ^^ n) 0)"
    using assms by (intro ramp_run_minus) simp_all
  then show ?thesis
    using assms ramp_run_up [of r "- t" b n] by simp
qed

section \<open>One iteration and many of \<open>baseMotorControl\<close>\<close>

lemma tick_powerL:
  "powerL (fst (baseMotorControl_tick c (l, s))) =
     ramp_step (RAMPING_POW c) (power_bound c s) (targetPowerL s) (powerL l)"
  by (simp add: baseMotorControl_tick_def Let_def ramp_step_def power_bound_def)

lemma tick_powerR:
  "powerR (fst (baseMotorControl_tick c (l, s))) =
     ramp_step (RAMPING_POW c) (power_bound c s) (targetPowerR s) (powerR l)"
  by (simp add: baseMotorControl_tick_def Let_def ramp_step_def power_bound_def)

lemma tick_locals_cong:
  "motor_inputs s = motor_inputs s' \<Longrightarrow>
     fst (baseMotorControl_tick c (l, s)) = fst (baseMotorControl_tick c (l, s'))"
  by (simp add: baseMotorControl_tick_def Let_def motor_inputs_def)

lemma tick_motor_inputs:
  "motor_inputs (snd (baseMotorControl_tick c (l, s))) = motor_inputs s"
  by (simp add: baseMotorControl_tick_def Let_def motor_inputs_def)

lemma tick_basePaused:
  "basePaused (snd (baseMotorControl_tick c (l, s))) = basePaused s"
  by (simp add: baseMotorControl_tick_def Let_def)

lemma tick_paused: "basePaused s \<Longrightarrow> snd (baseMotorControl_tick c (l, s)) = s"
  by (simp add: baseMotorControl_tick_def Let_def)

lemma tick_writes:
  "\<not> basePaused s \<Longrightarrow>
     moved (FL (snd (baseMotorControl_tick c (l, s)))) = powerL (fst (baseMotorControl_tick c (l, s)))
   \<and> moved (BL (snd (baseMotorControl_tick c (l, s)))) = powerL (fst (baseMotorControl_tick c (l, s)))
   \<and> moved (FR (snd (baseMotorControl_tick c (l, s)))) = powerR (fst (baseMotorControl_tick c (l, s)))
   \<and> moved (BR (snd (baseMotorControl_tick c (l, s)))) = powerR (fst (baseMotorControl_tick c (l, s)))"
  by (simp add: baseMotorControl_tick_def Let_def move_def)

lemma ticks_Suc:
  "baseMotorControl_ticks c (Suc n) st = baseMotorControl_tick c (baseMotorControl_ticks c n st)"
  by (simp add: baseMotorControl_ticks_def)

lemma ticks_motor_inputs:
  "motor_inputs (snd (baseMotorControl_ticks c n (l, s))) = motor_inputs s"
proof (induction n)
  case 0
  show ?case by (simp add: baseMotorControl_ticks_def)
next
  case (Suc n)
  obtain l' s' where st: "baseMotorControl_ticks c n (l, s) = (l', s')"
    by (cases "baseMotorControl_ticks c n (l, s)")
  with Suc show ?case
    by (simp add: ticks_Suc tick_motor_inputs)
qed

lemma ticks_basePaused:
  "basePaused (snd (baseMotorControl_ticks c n (l, s))) = basePaused s"
proof (induction n)
  case 0
  show ?case by (simp add: baseMotorControl_ticks_def)
next
  case (Suc n)
  obtain l' s' where st: "baseMotorControl_ticks c n (l, s) = (l', s')"
    by (cases "baseMotorControl_ticks c n (l, s)")
  with Suc show ?case
    by (simp add: ticks_Suc tick_basePaused)
qed

lemma ticks_paused:
  "basePaused s \<Longrightarrow> snd (baseMotorControl_ticks c n (l, s)) = s"
proof (induction n)
  case 0
  show ?case by (simp add: baseMotorControl_ticks_def)
next
  case (Suc n)
  obtain l' s' where st: "baseMotorControl_ticks c n (l, s) = (l', s')"
    by (cases "baseMotorControl_ticks c n (l, s)")
  with Suc show ?case
    by (simp add: ticks_Suc tick_paused)
qed

lemma ticks_locals_cong:
  "motor_inputs s = motor_inputs s' \<Longrightarrow>
     fst (baseMotorControl_ticks c n (l, s)) = fst (baseMotorControl_ticks c n (l, s'))"
proof (induction n)
  case 0
  show ?case by (simp add: baseMotorControl_ticks_def)
next
  case (Suc n)
  obtain l1 s1 where st1: "baseMotorControl_ticks c n (l, s) = (l1, s1)"
    by (cases "baseMotorControl_ticks c n (l, s)")
  obtain l2 s2 where st2: "baseMotorControl_ticks c n (l, s') = (l2, s2)"
    by (cases "baseMotorControl_ticks c n (l, s')")
  have "l1 = l2"
    using Suc st1 st2 by simp
  moreover have "motor_inputs s1 = motor_inputs s2"
    using ticks_motor_inputs [of c n l s] ticks_motor_inputs [of c n l s'] Suc.prems st1 st2
    by simp
  ultimately show ?case
    using tick_locals_cong [of s1 s2 c l1] by (simp add: ticks_Suc st1 st2)
qed

lemma ticks_powerL:
  "powerL (fst (baseMotorControl_ticks c n (l, s))) =
     (ramp_step (RAMPING_POW c) (power_bound c s) (targetPowerL s) ^^ n) (powerL l)"
proof (induction n)
  case 0
  show ?case by (simp add: baseMotorControl_ticks_def)
next
  case (Suc n)
  obtain l' s' where st: "baseMotorControl_ticks c n (l, s) = (l', s')"
    by (cases "baseMotorControl_ticks c n (l, s)")
  have m: "motor_inputs s' = motor_inputs s"
    using ticks_motor_inputs [of c n l s] st by simp
  then have "targetPowerL s' = targetPowerL s" "power_bound c s' = power_bound c s"
    by (simp_all add: motor_inputs_def power_bound_def)
  with Suc st show ?case
    by (simp add: ticks_Suc tick_powerL)
qed

lemma ticks_powerR:
  "powerR (fst (baseMotorControl_ticks c n (l, s))) =
     (ramp_step (RAMPING_POW c) (power_bound c s) (targetPowerR s) ^^ n) (powerR l)"
proof (induction n)
  case 0
  show ?case by (simp add: baseMotorControl_ticks_def)
next
  case (Suc n)
  obtain l' s' where st: "baseMotorControl_ticks c n (l, s) = (l', s')"
    by (cases "baseMotorControl_ticks c n (l, s)")
  have m: "motor_inputs s' = motor_inputs s"
    using ticks_motor_inputs [of c n l s] st by simp
  then have "targetPowerR s' = targetPowerR s" "power_bound c s' = power_bound c s"
    by (simp_all add: motor_inputs_def power_bound_def)
  with Suc st show ?case
    by (simp add: ticks_Suc tick_powerR)
qed

lemma ticks_writes:
  assumes "\<not> basePaused s"
  shows "moved (FL (snd (baseMotorControl_ticks c (Suc n) (l, s)))) =
           powerL (fst (baseMotorControl_ticks c (Suc n) (l, s)))
       \<and> moved (BL (snd (baseMotorControl_ticks c (Suc n) (l, s)))) =
           powerL (fst (baseMotorControl_ticks c (Suc n) (l, s)))
       \<and> moved (FR (snd (baseMotorControl_ticks c (Suc n) (l, s)))) =
           powerR (fst (baseMotorControl_ticks c (Suc n) (l, s)))
       \<and> moved (BR (snd (baseMotorControl_ticks c (Suc n) (l, s)))) =
           powerR (fst (baseMotorControl_ticks c (Suc n) (l, s)))"
proof -
  obtain l' s' where st: "baseMotorControl_ticks c n (l, s) = (l', s')"
    by (cases "baseMotorControl_ticks c n (l, s)")
  have "\<not> basePaused s'"
    using ticks_basePaused [of c n l s] st assms by simp
  then show ?thesis
    using tick_writes [of s' c l'] by (simp add: ticks_Suc st)
qed

lemma start_powers: "powerL baseMotorControl_start = 0" "powerR baseMotorControl_start = 0"
  by (simp_all add: baseMotorControl_start_def)

section \<open>The slew-rate limit\<close>

text \<open>
  C5, as stated, fails. The clamp to the cap comes after the ramp, and the cap can be
  lowered between two iterations: after 7 iterations with the target power at 100 and
  no cap the applied power is 100; \<open>capBasePow(50)\<close> is then called, and the next
  iteration takes the applied power to 50, a change of 50 with a ramp step of 15.
\<close>

theorem baseMotorControl_cap_drop_counterexample:
  "powerL (fst (baseMotorControl_ticks example_constants 7
       (baseMotorControl_start, robot_powering 100))) = 100
   \<and> powerL (fst (baseMotorControl_tick example_constants (apsnd (capBasePow 50)
       (baseMotorControl_ticks example_constants 7
         (baseMotorControl_start, robot_powering 100))))) = 50
   \<and> \<not> \<bar>powerL (fst (baseMotorControl_tick example_constants (apsnd (capBasePow 50)
            (baseMotorControl_ticks example_constants 7
              (baseMotorControl_start, robot_powering 100)))))
         - powerL (fst (baseMotorControl_ticks example_constants 7
            (baseMotorControl_start, robot_powering 100)))\<bar>
       \<le> RAMPING_POW example_constants"
proof -
  obtain l7 s7 where st: "baseMotorControl_ticks example_constants 7
      (baseMotorControl_start, robot_powering 100) = (l7, s7)"
    by (cases "baseMotorControl_ticks example_constants 7
      (baseMotorControl_start, robot_powering 100)")
  have "powerL (fst (baseMotorControl_ticks example_constants 7
       (baseMotorControl_start, robot_powering 100))) =
       (ramp_step 15 127 100 ^^ 7) 0"
    by (simp add: ticks_powerL start_powers example_constants_def power_bound_def
        robot_powering_def init_robot_def)
  also have "\<dots> = min (real 7 * 15) (min 100 127)"
    by (intro ramp_run_up) simp_all
  finally have p7: "powerL (fst (baseMotorControl_ticks example_constants 7
       (baseMotorControl_start, robot_powering 100))) = 100"
    by simp
  then have l7: "powerL l7 = 100"
    by (simp add: st)
  have "motor_inputs s7 = motor_inputs (robot_powering 100)"
    using ticks_motor_inputs [of example_constants 7 baseMotorControl_start "robot_powering 100"]
    by (simp add: st)
  then have t7: "targetPowerL s7 = 100"
    by (simp add: motor_inputs_def robot_powering_def init_robot_def)
  have "powerL (fst (baseMotorControl_tick example_constants (l7, capBasePow 50 s7))) = 50"
    by (simp add: tick_powerL power_bound_def capBasePow_def l7 t7 ramp_step_def abscap_def
        example_constants_def)
  then have p8: "powerL (fst (baseMotorControl_tick example_constants (apsnd (capBasePow 50)
       (baseMotorControl_ticks example_constants 7
         (baseMotorControl_start, robot_powering 100))))) = 50"
    by (simp add: st)
  have r: "RAMPING_POW example_constants = 15"
    by (simp add: example_constants_def)
  show ?thesis
    unfolding p7 p8 r by simp
qed

text \<open>
  C5, amended. On every iteration of \<open>baseMotorControl\<close> in which the applied power of
  the iteration before is within the bound then in force (the cap when it is on,
  \<open>MAX_POW\<close> otherwise), each side's applied power changes by at most \<open>RAMPING_POW\<close> in
  absolute value, whatever the target power; and the new applied power is within that
  bound again, so the limit holds on every iteration for as long as the bound is not
  lowered. With the target power at 100, a ramp step of 15 and a bound of at least
  100, the applied power after \<open>n\<close> iterations is \<open>min (15 * n) 100\<close>: 15, 30, 45, ...,
  never decreasing and never above 100.
\<close>

theorem baseMotorControl_slew_rate:
  assumes "0 \<le> RAMPING_POW c"
  shows "(\<bar>powerL l\<bar> \<le> power_bound c s \<longrightarrow>
            \<bar>powerL (fst (baseMotorControl_tick c (l, s))) - powerL l\<bar> \<le> RAMPING_POW c
            \<and> \<bar>powerL (fst (baseMotorControl_tick c (l, s)))\<bar> \<le> power_bound c s)
       \<and> (\<bar>powerR l\<bar> \<le> power_bound c s \<longrightarrow>
            \<bar>powerR (fst (baseMotorControl_tick c (l, s))) - powerR l\<bar> \<le> RAMPING_POW c
            \<and> \<bar>powerR (fst (baseMotorControl_tick c (l, s)))\<bar> \<le> power_bound c s)
       \<and> (RAMPING_POW c = 15 \<and> targetPowerL s = 100 \<and> targetPowerR s = 100
            \<and> 100 \<le> power_bound c s \<longrightarrow>
            (\<forall>n. powerL (fst (baseMotorControl_ticks c n (baseMotorControl_start, s)))
                   = min (15 * real n) 100
                \<and> powerR (fst (baseMotorControl_ticks c n (baseMotorControl_start, s)))
                   = min (15 * real n) 100
                \<and> powerL (fst (baseMotorControl_ticks c n (baseMotorControl_start, s)))
                   \<le> powerL (fst (baseMotorControl_ticks c (Suc n) (baseMotorControl_start, s)))
                \<and> powerL (fst (baseMotorControl_ticks c n (baseMotorControl_start, s))) \<le> 100))"
proof -
  have slewL: "\<bar>powerL (fst (baseMotorControl_tick c (l, s))) - powerL l\<bar> \<le> RAMPING_POW c
            \<and> \<bar>powerL (fst (baseMotorControl_tick c (l, s)))\<bar> \<le> power_bound c s"
    if "\<bar>powerL l\<bar> \<le> power_bound c s"
  proof -
    have "0 \<le> power_bound c s"
      using that by simp
    then have "\<bar>powerL (fst (baseMotorControl_tick c (l, s)))\<bar> \<le> power_bound c s"
      by (simp add: tick_powerL ramp_step_def abscap_abs_le)
    then show ?thesis
      using ramp_step_slew [OF assms that] by (simp add: tick_powerL)
  qed
  have slewR: "\<bar>powerR (fst (baseMotorControl_tick c (l, s))) - powerR l\<bar> \<le> RAMPING_POW c
            \<and> \<bar>powerR (fst (baseMotorControl_tick c (l, s)))\<bar> \<le> power_bound c s"
    if "\<bar>powerR l\<bar> \<le> power_bound c s"
  proof -
    have "0 \<le> power_bound c s"
      using that by simp
    then have "\<bar>powerR (fst (baseMotorControl_tick c (l, s)))\<bar> \<le> power_bound c s"
      by (simp add: tick_powerR ramp_step_def abscap_abs_le)
    then show ?thesis
      using ramp_step_slew [OF assms that] by (simp add: tick_powerR)
  qed
  have run: "powerL (fst (baseMotorControl_ticks c n (baseMotorControl_start, s)))
                   = min (15 * real n) 100
                \<and> powerR (fst (baseMotorControl_ticks c n (baseMotorControl_start, s)))
                   = min (15 * real n) 100
                \<and> powerL (fst (baseMotorControl_ticks c n (baseMotorControl_start, s)))
                   \<le> powerL (fst (baseMotorControl_ticks c (Suc n) (baseMotorControl_start, s)))
                \<and> powerL (fst (baseMotorControl_ticks c n (baseMotorControl_start, s))) \<le> 100"
    if h: "RAMPING_POW c = 15 \<and> targetPowerL s = 100 \<and> targetPowerR s = 100
            \<and> 100 \<le> power_bound c s" for n
  proof -
    have b: "0 \<le> power_bound c s"
      using h by simp
    have f: "(ramp_step 15 (power_bound c s) 100 ^^ k) 0 = min (15 * real k) 100" for k
      using ramp_run_up [of 15 100 "power_bound c s" k] b h by (simp add: mult.commute)
    have L: "powerL (fst (baseMotorControl_ticks c k (baseMotorControl_start, s)))
        = min (15 * real k) 100" for k
      using f [of k] h by (simp add: ticks_powerL start_powers)
    have R: "powerR (fst (baseMotorControl_ticks c n (baseMotorControl_start, s)))
        = min (15 * real n) 100"
      using f [of n] h by (simp add: ticks_powerR start_powers)
    show ?thesis
      using L [of n] L [of "Suc n"] R by simp
  qed
  show ?thesis
    using slewL slewR run by blast
qed

theorem baseMotorControl_slew_rate_witness:
  "0 \<le> RAMPING_POW example_constants
   \<and> \<bar>powerL baseMotorControl_start\<bar> \<le> power_bound example_constants (robot_powering 100)
   \<and> \<bar>powerL (fst (baseMotorControl_tick example_constants
          (baseMotorControl_start, robot_powering 100))) - powerL baseMotorControl_start\<bar>
       \<le> RAMPING_POW example_constants
   \<and> powerL (fst (baseMotorControl_ticks example_constants 1
          (baseMotorControl_start, robot_powering 100))) = 15
   \<and> powerL (fst (baseMotorControl_ticks example_constants 2
          (baseMotorControl_start, robot_powering 100))) = 30
   \<and> powerL (fst (baseMotorControl_ticks example_constants 3
          (baseMotorControl_start, robot_powering 100))) = 45
   \<and> powerL (fst (baseMotorControl_ticks example_constants 7
          (baseMotorControl_start, robot_powering 100))) = 100
   \<and> powerL (fst (baseMotorControl_ticks example_constants 8
          (baseMotorControl_start, robot_powering 100))) = 100"
proof -
  have r: "0 \<le> RAMPING_POW example_constants"
    by (simp add: example_constants_def)
  have b: "\<bar>powerL baseMotorControl_start\<bar> \<le> power_bound example_constants (robot_powering 100)"
    "\<bar>powerR baseMotorControl_start\<bar> \<le> power_bound example_constants (robot_powering 100)"
    by (simp_all add: start_powers power_bound_def robot_powering_def init_robot_def
        example_constants_def)
  have h: "RAMPING_POW example_constants = 15 \<and> targetPowerL (robot_powering 100) = 100
      \<and> targetPowerR (robot_powering 100) = 100
      \<and> 100 \<le> power_bound example_constants (robot_powering 100)"
    by (simp add: power_bound_def robot_powering_def init_robot_def example_constants_def)
  note t = baseMotorControl_slew_rate [OF r, of baseMotorControl_start "robot_powering 100"]
  from t b have s1: "\<bar>powerL (fst (baseMotorControl_tick example_constants
          (baseMotorControl_start, robot_powering 100))) - powerL baseMotorControl_start\<bar>
       \<le> RAMPING_POW example_constants"
    by blast
  from t h have run: "powerL (fst (baseMotorControl_ticks example_constants n
          (baseMotorControl_start, robot_powering 100))) = min (15 * real n) 100" for n
    by blast
  show ?thesis
    using r b(1) s1 run [of 1] run [of 2] run [of 3] run [of 7] run [of 8] by simp
qed

section \<open>The cap\<close>

text \<open>
  C7. On every iteration of \<open>baseMotorControl\<close> the ramped power of each side is
  clamped to plus or minus \<open>absPowerCap\<close> when the cap is on and to plus or minus
  \<open>MAX_POW\<close> otherwise, and keeps its sign: a ramped power at or above the bound gives
  exactly the bound, one at or below minus the bound gives exactly minus the bound.
  With a cap of 50, a target power of 150 gives an applied power of exactly 50, and a
  target power of -150 exactly -50, from the iteration on at which the ramp has covered
  50, and that value is written to the motors.
\<close>

theorem baseMotorControl_clamp:
  assumes "0 \<le> power_bound c s"
  shows "powerL (fst (baseMotorControl_tick c (l, s))) =
           abscap (powerL l + abscap (targetPowerL s - powerL l) (RAMPING_POW c))
             (if basePowCapped s then absPowerCap s else MAX_POW c)
       \<and> powerR (fst (baseMotorControl_tick c (l, s))) =
           abscap (powerR l + abscap (targetPowerR s - powerR l) (RAMPING_POW c))
             (if basePowCapped s then absPowerCap s else MAX_POW c)
       \<and> \<bar>powerL (fst (baseMotorControl_tick c (l, s)))\<bar> \<le> power_bound c s
       \<and> \<bar>powerR (fst (baseMotorControl_tick c (l, s)))\<bar> \<le> power_bound c s
       \<and> (power_bound c s \<le> powerL l + abscap (targetPowerL s - powerL l) (RAMPING_POW c) \<longrightarrow>
            powerL (fst (baseMotorControl_tick c (l, s))) = power_bound c s)
       \<and> (powerL l + abscap (targetPowerL s - powerL l) (RAMPING_POW c) \<le> - power_bound c s \<longrightarrow>
            powerL (fst (baseMotorControl_tick c (l, s))) = - power_bound c s)
       \<and> (0 \<le> powerL l + abscap (targetPowerL s - powerL l) (RAMPING_POW c) \<longrightarrow>
            0 \<le> powerL (fst (baseMotorControl_tick c (l, s))))
       \<and> (powerL l + abscap (targetPowerL s - powerL l) (RAMPING_POW c) \<le> 0 \<longrightarrow>
            powerL (fst (baseMotorControl_tick c (l, s))) \<le> 0)
       \<and> power_bound c (capBasePow cap s) = cap
       \<and> power_bound c (rmBaseCap s) = MAX_POW c
       \<and> (\<not> basePaused s \<and> 0 \<le> RAMPING_POW c \<and> 50 \<le> real (Suc n) * RAMPING_POW c \<longrightarrow>
            powerL (fst (baseMotorControl_ticks c (Suc n) (baseMotorControl_start,
              capBasePow 50 (s\<lparr>targetPowerL := 150, targetPowerR := - 150\<rparr>)))) = 50
            \<and> powerR (fst (baseMotorControl_ticks c (Suc n) (baseMotorControl_start,
              capBasePow 50 (s\<lparr>targetPowerL := 150, targetPowerR := - 150\<rparr>)))) = - 50
            \<and> moved (FL (snd (baseMotorControl_ticks c (Suc n) (baseMotorControl_start,
              capBasePow 50 (s\<lparr>targetPowerL := 150, targetPowerR := - 150\<rparr>))))) = 50
            \<and> moved (FR (snd (baseMotorControl_ticks c (Suc n) (baseMotorControl_start,
              capBasePow 50 (s\<lparr>targetPowerL := 150, targetPowerR := - 150\<rparr>))))) = - 50)"
proof -
  let ?vL = "powerL l + abscap (targetPowerL s - powerL l) (RAMPING_POW c)"
  let ?vR = "powerR l + abscap (targetPowerR s - powerR l) (RAMPING_POW c)"
  have eqL: "powerL (fst (baseMotorControl_tick c (l, s))) = abscap ?vL (power_bound c s)"
    by (simp add: tick_powerL ramp_step_def)
  have eqR: "powerR (fst (baseMotorControl_tick c (l, s))) = abscap ?vR (power_bound c s)"
    by (simp add: tick_powerR ramp_step_def)
  have defL: "powerL (fst (baseMotorControl_tick c (l, s))) =
      abscap ?vL (if basePowCapped s then absPowerCap s else MAX_POW c)"
    using eqL by (simp add: power_bound_def)
  have defR: "powerR (fst (baseMotorControl_tick c (l, s))) =
      abscap ?vR (if basePowCapped s then absPowerCap s else MAX_POW c)"
    using eqR by (simp add: power_bound_def)
  have bL: "\<bar>powerL (fst (baseMotorControl_tick c (l, s)))\<bar> \<le> power_bound c s"
    unfolding eqL using assms by (rule abscap_abs_le)
  have bR: "\<bar>powerR (fst (baseMotorControl_tick c (l, s)))\<bar> \<le> power_bound c s"
    unfolding eqR using assms by (rule abscap_abs_le)
  have sat: "(power_bound c s \<le> ?vL \<longrightarrow>
        powerL (fst (baseMotorControl_tick c (l, s))) = power_bound c s)
      \<and> (?vL \<le> - power_bound c s \<longrightarrow>
        powerL (fst (baseMotorControl_tick c (l, s))) = - power_bound c s)"
    unfolding eqL using assms by (rule abscap_saturates)
  have sgn: "(0 \<le> ?vL \<longrightarrow> 0 \<le> powerL (fst (baseMotorControl_tick c (l, s))))
      \<and> (?vL \<le> 0 \<longrightarrow> powerL (fst (baseMotorControl_tick c (l, s))) \<le> 0)"
    unfolding eqL using assms by (rule abscap_sign)
  have caps: "power_bound c (capBasePow cap s) = cap" "power_bound c (rmBaseCap s) = MAX_POW c"
    by (simp_all add: power_bound_def capBasePow_def rmBaseCap_def)
  have run: "powerL (fst (baseMotorControl_ticks c (Suc n) (baseMotorControl_start,
              capBasePow 50 (s\<lparr>targetPowerL := 150, targetPowerR := - 150\<rparr>)))) = 50
            \<and> powerR (fst (baseMotorControl_ticks c (Suc n) (baseMotorControl_start,
              capBasePow 50 (s\<lparr>targetPowerL := 150, targetPowerR := - 150\<rparr>)))) = - 50
            \<and> moved (FL (snd (baseMotorControl_ticks c (Suc n) (baseMotorControl_start,
              capBasePow 50 (s\<lparr>targetPowerL := 150, targetPowerR := - 150\<rparr>))))) = 50
            \<and> moved (FR (snd (baseMotorControl_ticks c (Suc n) (baseMotorControl_start,
              capBasePow 50 (s\<lparr>targetPowerL := 150, targetPowerR := - 150\<rparr>))))) = - 50"
    if h: "\<not> basePaused s \<and> 0 \<le> RAMPING_POW c \<and> 50 \<le> real (Suc n) * RAMPING_POW c"
  proof -
    let ?s = "capBasePow 50 (s\<lparr>targetPowerL := 150, targetPowerR := - 150\<rparr>)"
    have s: "power_bound c ?s = 50" "targetPowerL ?s = 150" "targetPowerR ?s = - 150"
      "\<not> basePaused ?s"
      using h by (simp_all add: power_bound_def capBasePow_def)
    have "(ramp_step (RAMPING_POW c) 50 150 ^^ Suc n) 0
        = min (real (Suc n) * RAMPING_POW c) (min 150 50)"
      using h by (intro ramp_run_up) simp_all
    then have up: "(ramp_step (RAMPING_POW c) 50 150 ^^ Suc n) 0 = 50"
      using h by (simp del: funpow.simps)
    have "(ramp_step (RAMPING_POW c) 50 (- 150) ^^ Suc n) 0
        = - min (real (Suc n) * RAMPING_POW c) (min (- (- 150)) 50)"
      using h by (intro ramp_run_down) simp_all
    then have down: "(ramp_step (RAMPING_POW c) 50 (- 150) ^^ Suc n) 0 = - 50"
      using h by (simp del: funpow.simps)
    have L: "powerL (fst (baseMotorControl_ticks c (Suc n) (baseMotorControl_start, ?s))) = 50"
      unfolding ticks_powerL s start_powers by (rule up)
    have R: "powerR (fst (baseMotorControl_ticks c (Suc n) (baseMotorControl_start, ?s))) = - 50"
      unfolding ticks_powerR s start_powers by (rule down)
    show ?thesis
      using ticks_writes [OF s(4), of c n baseMotorControl_start] L R by simp
  qed
  show ?thesis
    using defL defR bL bR sat sgn caps run by blast
qed

theorem baseMotorControl_clamp_witness:
  "0 \<le> power_bound example_constants (capBasePow 50 (robot_powering 150))
   \<and> powerL (fst (baseMotorControl_tick example_constants
        (\<lparr>powerL = 45, powerR = 0\<rparr>, capBasePow 50 (robot_powering 150)))) = 50
   \<and> powerL (fst (baseMotorControl_ticks example_constants (Suc 3) (baseMotorControl_start,
        capBasePow 50 ((capBasePow 50 (robot_powering 150))
          \<lparr>targetPowerL := 150, targetPowerR := - 150\<rparr>)))) = 50
   \<and> powerR (fst (baseMotorControl_ticks example_constants (Suc 3) (baseMotorControl_start,
        capBasePow 50 ((capBasePow 50 (robot_powering 150))
          \<lparr>targetPowerL := 150, targetPowerR := - 150\<rparr>)))) = - 50
   \<and> moved (FL (snd (baseMotorControl_ticks example_constants (Suc 3) (baseMotorControl_start,
        capBasePow 50 ((capBasePow 50 (robot_powering 150))
          \<lparr>targetPowerL := 150, targetPowerR := - 150\<rparr>))))) = 50
   \<and> moved (FR (snd (baseMotorControl_ticks example_constants (Suc 3) (baseMotorControl_start,
        capBasePow 50 ((capBasePow 50 (robot_powering 150))
          \<lparr>targetPowerL := 150, targetPowerR := - 150\<rparr>))))) = - 50"
proof -
  have b: "0 \<le> power_bound example_constants (capBasePow 50 (robot_powering 150))"
    by (simp add: power_bound_def capBasePow_def)
  have pb: "power_bound example_constants (capBasePow 50 (robot_powering 150)) = 50"
    by (simp add: power_bound_def capBasePow_def)
  have v: "power_bound example_constants (capBasePow 50 (robot_powering 150))
      \<le> powerL \<lparr>powerL = 45, powerR = 0\<rparr>
        + abscap (targetPowerL (capBasePow 50 (robot_powering 150)) - powerL \<lparr>powerL = 45, powerR = 0\<rparr>)
            (RAMPING_POW example_constants)"
    by (simp add: power_bound_def capBasePow_def robot_powering_def init_robot_def abscap_def
        example_constants_def)
  have h: "\<not> basePaused (capBasePow 50 (robot_powering 150)) \<and> 0 \<le> RAMPING_POW example_constants
      \<and> 50 \<le> real (Suc 3) * RAMPING_POW example_constants"
    by (simp add: capBasePow_def robot_powering_def init_robot_def example_constants_def)
  note t = baseMotorControl_clamp [OF b, of "\<lparr>powerL = 45, powerR = 0\<rparr>" 50 3]
  from t v have one: "powerL (fst (baseMotorControl_tick example_constants
        (\<lparr>powerL = 45, powerR = 0\<rparr>, capBasePow 50 (robot_powering 150))))
      = power_bound example_constants (capBasePow 50 (robot_powering 150))"
    by blast
  from t h have run: "powerL (fst (baseMotorControl_ticks example_constants (Suc 3) (baseMotorControl_start,
        capBasePow 50 ((capBasePow 50 (robot_powering 150))
          \<lparr>targetPowerL := 150, targetPowerR := - 150\<rparr>)))) = 50
   \<and> powerR (fst (baseMotorControl_ticks example_constants (Suc 3) (baseMotorControl_start,
        capBasePow 50 ((capBasePow 50 (robot_powering 150))
          \<lparr>targetPowerL := 150, targetPowerR := - 150\<rparr>)))) = - 50
   \<and> moved (FL (snd (baseMotorControl_ticks example_constants (Suc 3) (baseMotorControl_start,
        capBasePow 50 ((capBasePow 50 (robot_powering 150))
          \<lparr>targetPowerL := 150, targetPowerR := - 150\<rparr>))))) = 50
   \<and> moved (FR (snd (baseMotorControl_ticks example_constants (Suc 3) (baseMotorControl_start,
        capBasePow 50 ((capBasePow 50 (robot_powering 150))
          \<lparr>targetPowerL := 150, targetPowerR := - 150\<rparr>))))) = - 50"
    by blast
  show ?thesis
    using b one [unfolded pb] run by blast
qed

section \<open>The pause flag\<close>

lemma motor_inputs_pauseBase: "motor_inputs (pauseBase b s) = motor_inputs s"
  by (simp add: motor_inputs_def pauseBase_def)

lemma ramp_run_converged:
  assumes "0 \<le> r" "\<bar>t\<bar> \<le> b" "\<bar>t\<bar> \<le> real n * r"
  shows "(ramp_step r b t ^^ n) 0 = t"
proof (cases "0 \<le> t")
  case True
  then have "(ramp_step r b t ^^ n) 0 = min (real n * r) (min t b)"
    using assms by (intro ramp_run_up) simp_all
  then show ?thesis
    using True assms by simp
next
  case False
  then have "(ramp_step r b t ^^ n) 0 = - min (real n * r) (min (- t) b)"
    using assms by (intro ramp_run_down) simp_all
  then show ?thesis
    using False assms by simp
qed

lemma ramp_step_at_target:
  assumes "0 \<le> r" "\<bar>t\<bar> \<le> b"
  shows "ramp_step r b t t = t"
  using assms by (auto simp: ramp_step_def abscap_def)

text \<open>
  C8. While \<open>basePaused\<close> is set, the iterations of \<open>baseMotorControl\<close> write nothing
  to the motors (the robot's state is left as it is) and update the loop's \<open>powerL\<close>
  and \<open>powerR\<close> by the same ramp and clamp, exactly as they would with the flag clear,
  so the applied power of each side goes on to its target power and reaches it. The
  first iteration after the flag is cleared writes to the four motors the applied
  power that the loop would have had without the pause: on each side the target power
  itself once it has been reached.
\<close>

theorem baseMotorControl_pause:
  assumes "basePaused s"
  shows "snd (baseMotorControl_ticks c n (l, s)) = s
       \<and> fst (baseMotorControl_ticks c n (l, s))
           = fst (baseMotorControl_ticks c n (l, pauseBase False s))
       \<and> fst (baseMotorControl_tick c (apsnd (pauseBase False) (baseMotorControl_ticks c n (l, s))))
           = fst (baseMotorControl_ticks c (Suc n) (l, pauseBase False s))
       \<and> moved (FL (snd (baseMotorControl_tick c
            (apsnd (pauseBase False) (baseMotorControl_ticks c n (l, s))))))
           = powerL (fst (baseMotorControl_ticks c (Suc n) (l, pauseBase False s)))
       \<and> moved (BL (snd (baseMotorControl_tick c
            (apsnd (pauseBase False) (baseMotorControl_ticks c n (l, s))))))
           = powerL (fst (baseMotorControl_ticks c (Suc n) (l, pauseBase False s)))
       \<and> moved (FR (snd (baseMotorControl_tick c
            (apsnd (pauseBase False) (baseMotorControl_ticks c n (l, s))))))
           = powerR (fst (baseMotorControl_ticks c (Suc n) (l, pauseBase False s)))
       \<and> moved (BR (snd (baseMotorControl_tick c
            (apsnd (pauseBase False) (baseMotorControl_ticks c n (l, s))))))
           = powerR (fst (baseMotorControl_ticks c (Suc n) (l, pauseBase False s)))
       \<and> (0 \<le> RAMPING_POW c \<and> \<bar>targetPowerL s\<bar> \<le> power_bound c s
            \<and> \<bar>targetPowerL s\<bar> \<le> real n * RAMPING_POW c \<longrightarrow>
            powerL (fst (baseMotorControl_ticks c n (baseMotorControl_start, s))) = targetPowerL s
            \<and> moved (FL (snd (baseMotorControl_tick c (apsnd (pauseBase False)
                 (baseMotorControl_ticks c n (baseMotorControl_start, s)))))) = targetPowerL s
            \<and> moved (BL (snd (baseMotorControl_tick c (apsnd (pauseBase False)
                 (baseMotorControl_ticks c n (baseMotorControl_start, s)))))) = targetPowerL s)
       \<and> (0 \<le> RAMPING_POW c \<and> \<bar>targetPowerR s\<bar> \<le> power_bound c s
            \<and> \<bar>targetPowerR s\<bar> \<le> real n * RAMPING_POW c \<longrightarrow>
            powerR (fst (baseMotorControl_ticks c n (baseMotorControl_start, s))) = targetPowerR s
            \<and> moved (FR (snd (baseMotorControl_tick c (apsnd (pauseBase False)
                 (baseMotorControl_ticks c n (baseMotorControl_start, s)))))) = targetPowerR s
            \<and> moved (BR (snd (baseMotorControl_tick c (apsnd (pauseBase False)
                 (baseMotorControl_ticks c n (baseMotorControl_start, s)))))) = targetPowerR s)
       \<and> snd (baseMotorControl_tick c (l, s)) = s
       \<and> powerL (fst (baseMotorControl_tick c (l, s))) =
           abscap (powerL l + abscap (targetPowerL s - powerL l) (RAMPING_POW c))
             (if basePowCapped s then absPowerCap s else MAX_POW c)
       \<and> powerR (fst (baseMotorControl_tick c (l, s))) =
           abscap (powerR l + abscap (targetPowerR s - powerR l) (RAMPING_POW c))
             (if basePowCapped s then absPowerCap s else MAX_POW c)
       \<and> powerL (fst (baseMotorControl_ticks c n (l, s))) =
           (ramp_step (RAMPING_POW c) (power_bound c s) (targetPowerL s) ^^ n) (powerL l)
       \<and> powerR (fst (baseMotorControl_ticks c n (l, s))) =
           (ramp_step (RAMPING_POW c) (power_bound c s) (targetPowerR s) ^^ n) (powerR l)"
proof -
  have frame: "snd (baseMotorControl_ticks c n (l', s)) = s" for l'
    using assms by (rule ticks_paused)
  have same: "fst (baseMotorControl_ticks c n (l', s))
      = fst (baseMotorControl_ticks c n (l', pauseBase False s))" for l'
    by (intro ticks_locals_cong) (simp add: motor_inputs_pauseBase)
  have unp: "\<not> basePaused (pauseBase False s')" for s'
    by (simp add: pauseBase_def)
  obtain l2 s2 where st2: "baseMotorControl_ticks c n (l, pauseBase False s) = (l2, s2)"
    by (cases "baseMotorControl_ticks c n (l, pauseBase False s)")
  have m2: "motor_inputs s2 = motor_inputs (pauseBase False s)"
    using ticks_motor_inputs [of c n l "pauseBase False s"] st2 by simp
  have after: "baseMotorControl_tick c (apsnd (pauseBase False) (baseMotorControl_ticks c n (l', s)))
      = baseMotorControl_tick c (fst (baseMotorControl_ticks c n (l', s)), pauseBase False s)" for l'
    using frame [of l'] by (cases "baseMotorControl_ticks c n (l', s)") simp
  have next_locals: "fst (baseMotorControl_tick c
        (apsnd (pauseBase False) (baseMotorControl_ticks c n (l, s))))
      = fst (baseMotorControl_ticks c (Suc n) (l, pauseBase False s))"
  proof -
    have "fst (baseMotorControl_tick c (l2, pauseBase False s))
        = fst (baseMotorControl_tick c (l2, s2))"
      using m2 by (intro tick_locals_cong) simp
    then show ?thesis
      using same [of l] by (simp add: after ticks_Suc st2)
  qed
  have writes: "moved (FL (snd (baseMotorControl_tick c
            (apsnd (pauseBase False) (baseMotorControl_ticks c n (l', s))))))
           = powerL (fst (baseMotorControl_tick c
            (apsnd (pauseBase False) (baseMotorControl_ticks c n (l', s)))))
       \<and> moved (BL (snd (baseMotorControl_tick c
            (apsnd (pauseBase False) (baseMotorControl_ticks c n (l', s))))))
           = powerL (fst (baseMotorControl_tick c
            (apsnd (pauseBase False) (baseMotorControl_ticks c n (l', s)))))
       \<and> moved (FR (snd (baseMotorControl_tick c
            (apsnd (pauseBase False) (baseMotorControl_ticks c n (l', s))))))
           = powerR (fst (baseMotorControl_tick c
            (apsnd (pauseBase False) (baseMotorControl_ticks c n (l', s)))))
       \<and> moved (BR (snd (baseMotorControl_tick c
            (apsnd (pauseBase False) (baseMotorControl_ticks c n (l', s))))))
           = powerR (fst (baseMotorControl_tick c
            (apsnd (pauseBase False) (baseMotorControl_ticks c n (l', s)))))" for l'
    unfolding after using unp by (rule tick_writes)
  have convL: "powerL (fst (baseMotorControl_ticks c n (baseMotorControl_start, s))) = targetPowerL s
            \<and> moved (FL (snd (baseMotorControl_tick c (apsnd (pauseBase False)
                 (baseMotorControl_ticks c n (baseMotorControl_start, s)))))) = targetPowerL s
            \<and> moved (BL (snd (baseMotorControl_tick c (apsnd (pauseBase False)
                 (baseMotorControl_ticks c n (baseMotorControl_start, s)))))) = targetPowerL s"
    if h: "0 \<le> RAMPING_POW c \<and> \<bar>targetPowerL s\<bar> \<le> power_bound c s
            \<and> \<bar>targetPowerL s\<bar> \<le> real n * RAMPING_POW c"
  proof -
    have p: "powerL (fst (baseMotorControl_ticks c n (baseMotorControl_start, s))) = targetPowerL s"
      using h by (simp add: ticks_powerL start_powers ramp_run_converged)
    have "powerL (fst (baseMotorControl_tick c
        (fst (baseMotorControl_ticks c n (baseMotorControl_start, s)), pauseBase False s)))
        = ramp_step (RAMPING_POW c) (power_bound c s) (targetPowerL s) (targetPowerL s)"
      by (simp add: tick_powerL p power_bound_def pauseBase_def)
    also have "\<dots> = targetPowerL s"
      using h by (intro ramp_step_at_target) simp_all
    finally have "powerL (fst (baseMotorControl_tick c (apsnd (pauseBase False)
        (baseMotorControl_ticks c n (baseMotorControl_start, s))))) = targetPowerL s"
      by (simp add: after)
    then show ?thesis
      using p writes [of baseMotorControl_start] by simp
  qed
  have convR: "powerR (fst (baseMotorControl_ticks c n (baseMotorControl_start, s))) = targetPowerR s
            \<and> moved (FR (snd (baseMotorControl_tick c (apsnd (pauseBase False)
                 (baseMotorControl_ticks c n (baseMotorControl_start, s)))))) = targetPowerR s
            \<and> moved (BR (snd (baseMotorControl_tick c (apsnd (pauseBase False)
                 (baseMotorControl_ticks c n (baseMotorControl_start, s)))))) = targetPowerR s"
    if h: "0 \<le> RAMPING_POW c \<and> \<bar>targetPowerR s\<bar> \<le> power_bound c s
            \<and> \<bar>targetPowerR s\<bar> \<le> real n * RAMPING_POW c"
  proof -
    have p: "powerR (fst (baseMotorControl_ticks c n (baseMotorControl_start, s))) = targetPowerR s"
      using h by (simp add: ticks_powerR start_powers ramp_run_converged)
    have "powerR (fst (baseMotorControl_tick c
        (fst (baseMotorControl_ticks c n (baseMotorControl_start, s)), pauseBase False s)))
        = ramp_step (RAMPING_POW c) (power_bound c s) (targetPowerR s) (targetPowerR s)"
      by (simp add: tick_powerR p power_bound_def pauseBase_def)
    also have "\<dots> = targetPowerR s"
      using h by (intro ramp_step_at_target) simp_all
    finally have "powerR (fst (baseMotorControl_tick c (apsnd (pauseBase False)
        (baseMotorControl_ticks c n (baseMotorControl_start, s))))) = targetPowerR s"
      by (simp add: after)
    then show ?thesis
      using p writes [of baseMotorControl_start] by simp
  qed
  have one: "snd (baseMotorControl_tick c (l, s)) = s"
    using assms by (rule tick_paused)
  have stepL: "powerL (fst (baseMotorControl_tick c (l, s))) =
           abscap (powerL l + abscap (targetPowerL s - powerL l) (RAMPING_POW c))
             (if basePowCapped s then absPowerCap s else MAX_POW c)"
    by (simp add: tick_powerL ramp_step_def power_bound_def)
  have stepR: "powerR (fst (baseMotorControl_tick c (l, s))) =
           abscap (powerR l + abscap (targetPowerR s - powerR l) (RAMPING_POW c))
             (if basePowCapped s then absPowerCap s else MAX_POW c)"
    by (simp add: tick_powerR ramp_step_def power_bound_def)
  have rel: "snd (baseMotorControl_ticks c n (l, s)) = s
       \<and> fst (baseMotorControl_ticks c n (l, s))
           = fst (baseMotorControl_ticks c n (l, pauseBase False s))
       \<and> fst (baseMotorControl_tick c (apsnd (pauseBase False) (baseMotorControl_ticks c n (l, s))))
           = fst (baseMotorControl_ticks c (Suc n) (l, pauseBase False s))
       \<and> moved (FL (snd (baseMotorControl_tick c
            (apsnd (pauseBase False) (baseMotorControl_ticks c n (l, s))))))
           = powerL (fst (baseMotorControl_ticks c (Suc n) (l, pauseBase False s)))
       \<and> moved (BL (snd (baseMotorControl_tick c
            (apsnd (pauseBase False) (baseMotorControl_ticks c n (l, s))))))
           = powerL (fst (baseMotorControl_ticks c (Suc n) (l, pauseBase False s)))
       \<and> moved (FR (snd (baseMotorControl_tick c
            (apsnd (pauseBase False) (baseMotorControl_ticks c n (l, s))))))
           = powerR (fst (baseMotorControl_ticks c (Suc n) (l, pauseBase False s)))
       \<and> moved (BR (snd (baseMotorControl_tick c
            (apsnd (pauseBase False) (baseMotorControl_ticks c n (l, s))))))
           = powerR (fst (baseMotorControl_ticks c (Suc n) (l, pauseBase False s)))"
    using frame [of l] same [of l] next_locals writes [of l] by simp
  show ?thesis
    using rel convL convR one stepL stepR ticks_powerL [of c n l s] ticks_powerR [of c n l s]
    by blast
qed

theorem baseMotorControl_pause_witness:
  "basePaused (pauseBase True (robot_powering 100))
   \<and> snd (baseMotorControl_ticks example_constants 7
        (baseMotorControl_start, pauseBase True (robot_powering 100)))
      = pauseBase True (robot_powering 100)
   \<and> moved (FL (pauseBase True (robot_powering 100))) = 0
   \<and> powerL (fst (baseMotorControl_ticks example_constants 7
        (baseMotorControl_start, pauseBase True (robot_powering 100)))) = 100
   \<and> moved (FL (snd (baseMotorControl_tick example_constants (apsnd (pauseBase False)
        (baseMotorControl_ticks example_constants 7
          (baseMotorControl_start, pauseBase True (robot_powering 100))))))) = 100
   \<and> moved (FR (pauseBase True (robot_powering 100))) = 0
   \<and> powerR (fst (baseMotorControl_ticks example_constants 7
        (baseMotorControl_start, pauseBase True (robot_powering 100)))) = 100
   \<and> moved (FR (snd (baseMotorControl_tick example_constants (apsnd (pauseBase False)
        (baseMotorControl_ticks example_constants 7
          (baseMotorControl_start, pauseBase True (robot_powering 100))))))) = 100
   \<and> moved (BR (snd (baseMotorControl_tick example_constants (apsnd (pauseBase False)
        (baseMotorControl_ticks example_constants 7
          (baseMotorControl_start, pauseBase True (robot_powering 100))))))) = 100"
proof -
  have p: "basePaused (pauseBase True (robot_powering 100))"
    by (simp add: pauseBase_def)
  have t: "targetPowerL (pauseBase True (robot_powering 100)) = 100"
    "targetPowerR (pauseBase True (robot_powering 100)) = 100"
    by (simp_all add: pauseBase_def robot_powering_def init_robot_def)
  have hL: "0 \<le> RAMPING_POW example_constants
      \<and> \<bar>targetPowerL (pauseBase True (robot_powering 100))\<bar>
          \<le> power_bound example_constants (pauseBase True (robot_powering 100))
      \<and> \<bar>targetPowerL (pauseBase True (robot_powering 100))\<bar>
          \<le> real 7 * RAMPING_POW example_constants"
    by (simp add: pauseBase_def robot_powering_def init_robot_def example_constants_def
        power_bound_def)
  have hR: "0 \<le> RAMPING_POW example_constants
      \<and> \<bar>targetPowerR (pauseBase True (robot_powering 100))\<bar>
          \<le> power_bound example_constants (pauseBase True (robot_powering 100))
      \<and> \<bar>targetPowerR (pauseBase True (robot_powering 100))\<bar>
          \<le> real 7 * RAMPING_POW example_constants"
    by (simp add: pauseBase_def robot_powering_def init_robot_def example_constants_def
        power_bound_def)
  have m: "moved (FL (pauseBase True (robot_powering 100))) = 0"
    "moved (FR (pauseBase True (robot_powering 100))) = 0"
    by (simp_all add: pauseBase_def robot_powering_def init_robot_def)
  note w = baseMotorControl_pause [OF p, of example_constants 7 baseMotorControl_start]
  from w have frame: "snd (baseMotorControl_ticks example_constants 7
        (baseMotorControl_start, pauseBase True (robot_powering 100)))
      = pauseBase True (robot_powering 100)"
    by blast
  from w hL have convL: "powerL (fst (baseMotorControl_ticks example_constants 7
        (baseMotorControl_start, pauseBase True (robot_powering 100))))
        = targetPowerL (pauseBase True (robot_powering 100))
      \<and> moved (FL (snd (baseMotorControl_tick example_constants (apsnd (pauseBase False)
        (baseMotorControl_ticks example_constants 7
          (baseMotorControl_start, pauseBase True (robot_powering 100)))))))
        = targetPowerL (pauseBase True (robot_powering 100))"
    by blast
  from w hR have convR: "powerR (fst (baseMotorControl_ticks example_constants 7
        (baseMotorControl_start, pauseBase True (robot_powering 100))))
        = targetPowerR (pauseBase True (robot_powering 100))
      \<and> moved (FR (snd (baseMotorControl_tick example_constants (apsnd (pauseBase False)
        (baseMotorControl_ticks example_constants 7
          (baseMotorControl_start, pauseBase True (robot_powering 100)))))))
        = targetPowerR (pauseBase True (robot_powering 100))
      \<and> moved (BR (snd (baseMotorControl_tick example_constants (apsnd (pauseBase False)
        (baseMotorControl_ticks example_constants 7
          (baseMotorControl_start, pauseBase True (robot_powering 100)))))))
        = targetPowerR (pauseBase True (robot_powering 100))"
    by blast
  show ?thesis
    using p frame m convL [unfolded t] convR [unfolded t] by blast
qed

end
